theory Spec2Isabelle
  imports Complex_Main
begin

section \<open>Python values, errors and the configuration dictionary\<close>

text \<open>
  The environment of \<^verbatim>\<open>highway_env/envs/highway_env.py\<close> keeps its parameters in a
  Python dictionary \<^verbatim>\<open>self.config\<close>. A dictionary is a partial map from key strings
  to dynamically typed values. Python's \<^verbatim>\<open>int\<close> is unbounded; its \<^verbatim>\<open>float\<close> is
  modelled as an exact real: the theory reasons about the arithmetic the code writes
  down, not about IEEE rounding.
\<close>

datatype pyval =
    PNone
  | PBool bool
  | PInt int
  | PFloat real
  | PStr string
  | PList "pyval list"
  | PDict "(string \<times> pyval) list"

datatype error =
    KeyError string
  | ZeroDivisionError
  | IndexError
  | TypeError
  | ValueError

type_synonym 'a result = "error + 'a"

type_synonym config = "string \<rightharpoonup> pyval"

text \<open>Sequencing of fallible steps: the first raised exception aborts the rest.\<close>

definition bind :: "'a result \<Rightarrow> ('a \<Rightarrow> 'b result) \<Rightarrow> 'b result" where
  "bind m f = (case m of Inl e \<Rightarrow> Inl e | Inr x \<Rightarrow> f x)"

text \<open>\<^verbatim>\<open>config[key]\<close>: a missing key raises \<^verbatim>\<open>KeyError\<close>.\<close>

definition config_item :: "config \<Rightarrow> string \<Rightarrow> pyval result" where
  "config_item cfg key = (case cfg key of None \<Rightarrow> Inl (KeyError key) | Some v \<Rightarrow> Inr v)"

text \<open>\<^verbatim>\<open>config.get(key, default)\<close>: a missing key yields the default.\<close>

definition config_get :: "config \<Rightarrow> string \<Rightarrow> pyval \<Rightarrow> pyval" where
  "config_get cfg key dflt = (case cfg key of None \<Rightarrow> dflt | Some v \<Rightarrow> v)"

text \<open>
  A value used as a number in arithmetic or a comparison. Python's \<^verbatim>\<open>bool\<close> is a
  subclass of \<^verbatim>\<open>int\<close>; every other kind of value raises \<^verbatim>\<open>TypeError\<close>.
\<close>

fun as_num :: "pyval \<Rightarrow> real result" where
  "as_num (PFloat r) = Inr r"
| "as_num (PInt i) = Inr (of_int i)"
| "as_num (PBool b) = Inr (if b then 1 else 0)"
| "as_num _ = Inl TypeError"

text \<open>
  A value used as an interval \<^verbatim>\<open>x\<close> of which \<^verbatim>\<open>x[0]\<close> and then \<^verbatim>\<open>x[1]\<close> are read
  as numbers: a list that is too short raises \<^verbatim>\<open>IndexError\<close>.
\<close>

fun as_range :: "pyval \<Rightarrow> (real \<times> real) result" where
  "as_range (PList (a # b # _)) = bind (as_num a) (\<lambda>lo. bind (as_num b) (\<lambda>hi. Inr (lo, hi)))"
| "as_range (PList [a]) = bind (as_num a) (\<lambda>lo. Inl IndexError)"
| "as_range (PList []) = Inl IndexError"
| "as_range _ = Inl TypeError"

text \<open>Truth value of an object in a condition (\<^verbatim>\<open>if x:\<close>, \<^verbatim>\<open>x and y\<close>).\<close>

fun truthy :: "pyval \<Rightarrow> bool" where
  "truthy PNone = False"
| "truthy (PBool b) = b"
| "truthy (PInt i) = (i \<noteq> 0)"
| "truthy (PFloat r) = (r \<noteq> 0)"
| "truthy (PStr s) = (s \<noteq> [])"
| "truthy (PList vs) = (vs \<noteq> [])"
| "truthy (PDict kvs) = (kvs \<noteq> [])"

text \<open>\<^verbatim>\<open>dict.update\<close> with a dictionary literal: entries are stored in order, a later
  entry for the same key replaces the earlier one.\<close>

definition dict_update :: "config \<Rightarrow> (string \<times> pyval) list \<Rightarrow> config" where
  "dict_update cfg entries = fold (\<lambda>(k, v) m. m(k \<mapsto> v)) entries cfg"

section \<open>Numeric helpers\<close>

text \<open>
  Modelled from the spec: \<^verbatim>\<open>utils.lmap\<close> lives in \<^verbatim>\<open>highway_env/utils.py\<close>, which
  is not among the sources. The specification describes it as the linear map of a value
  \<open>v\<close> from an interval \<open>[x0, x1]\<close> onto an interval \<open>[y0, y1]\<close>, with the formula
  \<open>(v - min) / (max - min)\<close> for the target \<open>[0, 1]\<close>. The quotient is a Python
  division: an interval of width zero raises \<^verbatim>\<open>ZeroDivisionError\<close>.
\<close>

definition lmap :: "real \<Rightarrow> real \<times> real \<Rightarrow> real \<times> real \<Rightarrow> real result" where
  "lmap v x y =
     (if snd x - fst x = 0 then Inl ZeroDivisionError
      else Inr (fst y + (v - fst x) * (snd y - fst y) / (snd x - fst x)))"

text \<open>\<^verbatim>\<open>np.clip(x, lo, hi)\<close> on a scalar.\<close>

definition clip :: "real \<Rightarrow> real \<Rightarrow> real \<Rightarrow> real" where
  "clip x lo hi = min (max x lo) hi"

text \<open>Python's true division \<^verbatim>\<open>a / b\<close>.\<close>

definition py_div :: "real \<Rightarrow> real \<Rightarrow> real result" where
  "py_div a b = (if b = 0 then Inl ZeroDivisionError else Inr (a / b))"

section \<open>Vehicles and the environment state\<close>

text \<open>
  The fields of a vehicle object that this file reads or writes. \<^verbatim>\<open>position\<close>,
  \<^verbatim>\<open>heading\<close> and \<^verbatim>\<open>speed\<close> are handed to the controlled vehicle's constructor,
  \<^verbatim>\<open>crashed\<close> and \<^verbatim>\<open>on_road\<close> are read by the reward and by the termination test,
  \<^verbatim>\<open>check_collisions\<close> is written by the fast variant.
\<close>

record vehicle =
  position :: "real \<times> real"
  heading :: real
  speed :: real
  crashed :: bool
  on_road :: bool
  check_collisions :: bool

text \<open>
  The part of the environment the reward and the episode tests read.
  \<^item> \<open>config\<close> is \<^verbatim>\<open>self.config\<close>;
  \<^item> \<open>ego\<close> is \<^verbatim>\<open>self.vehicle\<close>;
  \<^item> \<open>front_vehicle\<close> and \<open>rear_vehicle\<close> are the two results of
    \<^verbatim>\<open>self.road.neighbour_vehicles(self.vehicle, self.vehicle.lane_index)\<close>; a neighbour
    that exists is represented by its signed longitudinal offset from the ego along the
    lane, an absent one is \<open>None\<close>;
  \<^item> \<open>beyond\<close> is the distance the vehicle collaborator reports for an absent neighbour
    (see \<open>lane_distance_to\<close>);
  \<^item> \<open>stored_action\<close> is \<^verbatim>\<open>self.action\<close>, the action stored in the environment;
  \<^item> \<open>time\<close> is \<^verbatim>\<open>self.time\<close>, the elapsed simulated time.
\<close>

record env =
  config :: config
  ego :: vehicle
  front_vehicle :: "real option"
  rear_vehicle :: "real option"
  beyond :: real
  stored_action :: "real list"
  time :: real

text \<open>
  Modelled from the spec: \<^verbatim>\<open>Vehicle.lane_distance_to\<close> belongs to the vehicle classes,
  which are not among the sources. For a neighbour that exists it is the longitudinal
  gap along the lane. For an absent neighbour the specification asks that the distance
  be treated as at or beyond the configured range and that no error be raised; the
  distance reported in that case is the parameter \<open>far\<close>.
\<close>

fun lane_distance_to :: "real \<Rightarrow> real option \<Rightarrow> real" where
  "lane_distance_to far None = far"
| "lane_distance_to far (Some d) = d"

section \<open>The default configuration\<close>

text \<open>
  \<^verbatim>\<open>HighwayEnv.default_config\<close> (lines 24 to 71) updates the configuration inherited
  from the base environment, which is a parameter here, with a dictionary literal. The
  literal names \<^verbatim>\<open>collision_reward\<close> twice; the later entry wins.
\<close>

definition HighwayEnv_default_config :: "config \<Rightarrow> config" where
  "HighwayEnv_default_config base = dict_update base
     [(''observation'', PDict
         [(''type'', PStr ''Kinematics''),
          (''vehicles_count'', PInt 10),
          (''features'', PList [PStr ''presence'', PStr ''x'', PStr ''y'', PStr ''vx'',
              PStr ''vy'', PStr ''heading'', PStr ''cos_h'', PStr ''sin_h''])]),
      (''action'', PDict [(''type'', PStr ''TrajectoryAction'')]),
      (''lanes_count'', PInt 4),
      (''vehicles_count'', PInt 50),
      (''controlled_vehicles'', PInt 1),
      (''initial_lane_id'', PNone),
      (''duration'', PInt 40),
      (''ego_spacing'', PInt 2),
      (''vehicles_density'', PInt 1),
      (''collision_reward'', PInt (- 1)),
      (''right_lane_reward'', PFloat (1 / 10)),
      (''high_speed_reward'', PFloat (4 / 10)),
      (''lane_change_reward'', PInt 0),
      (''reward_speed_range'', PList [PInt (- 40), PInt 40]),
      (''normalize_reward'', PBool True),
      (''offroad_terminal'', PBool False),
      (''speed_reward'', PInt 25),
      (''collision_reward'', PInt (- 50)),
      (''safe_distance_reward'', PInt 5),
      (''on_road_reward'', PInt 20),
      (''front_distance_range'', PList [PInt 0, PInt 30]),
      (''rear_distance_range'', PList [PInt 0, PInt 30]),
      (''torque_reward'', PInt 0)]"

section \<open>The reward evaluator\<close>

text \<open>
  Lines 129 to 137, forward half: the gap to the front vehicle is capped at
  \<^verbatim>\<open>minimum_safe_distance = 30\<close> and mapped from \<^verbatim>\<open>front_distance_range\<close> onto
  \<open>[0, 0.5]\<close>.
\<close>

definition front_distance_term :: "config \<Rightarrow> real \<Rightarrow> real result" where
  "front_distance_term cfg front_distance =
     (let minimum_safe_distance = 30;
          front_distance =
            (if front_distance > minimum_safe_distance then minimum_safe_distance
             else front_distance)
      in bind (config_item cfg ''front_distance_range'') (\<lambda>v.
         bind (as_range v) (\<lambda>r. lmap front_distance r (0, 1 / 2))))"

text \<open>
  Lines 134 and 137, rear half: the absolute value of the gap to the rear vehicle is
  mapped from \<^verbatim>\<open>rear_distance_range\<close> onto \<open>[0, 0.5]\<close>.
\<close>

definition rear_distance_term :: "config \<Rightarrow> real \<Rightarrow> real result" where
  "rear_distance_term cfg rear_distance =
     (let rear_distance = \<bar>rear_distance\<bar>
      in bind (config_item cfg ''rear_distance_range'') (\<lambda>v.
         bind (as_range v) (\<lambda>r. lmap rear_distance r (0, 1 / 2))))"

text \<open>Lines 129 to 138: the sum of the two halves, before clipping.\<close>

definition safe_distance :: "env \<Rightarrow> real result" where
  "safe_distance e =
     (let front_distance = lane_distance_to (beyond e) (front_vehicle e);
          rear_distance = lane_distance_to (beyond e) (rear_vehicle e)
      in bind (front_distance_term (config e) front_distance) (\<lambda>front_distance.
         bind (rear_distance_term (config e) rear_distance) (\<lambda>rear_distance.
         Inr (front_distance + rear_distance))))"

text \<open>
  Lines 146 to 152: the physical constants of the torque model (a class D sedan with an
  electric powertrain, and an assumed wheel mass).
\<close>

definition vehicle_mass :: real where "vehicle_mass = 1458"

definition rolling_resistance_coefficient :: real where
  "rolling_resistance_coefficient = 12 / 1000"

definition gravity :: real where "gravity = 981 / 100"

definition wheel_radius :: real where "wheel_radius = 33 / 100"

definition wheel_mass :: real where "wheel_mass = 20"

text \<open>Lines 155 to 157: the torque that balances the rolling resistance.\<close>

definition load_torque :: real where
  "load_torque =
     (let normal_force = vehicle_mass * gravity;
          rolling_resistance = rolling_resistance_coefficient * normal_force
      in rolling_resistance * wheel_radius)"

text \<open>
  Lines 159 to 161: the moment of inertia is the quotient of the angular momentum and the
  angular velocity. Both are zero at speed zero, where Python's division raises
  \<^verbatim>\<open>ZeroDivisionError\<close>; the code has no guard.
\<close>

definition moment_of_inertia :: "real \<Rightarrow> real result" where
  "moment_of_inertia ego_speed =
     (let angular_momentum = wheel_mass * ego_speed * wheel_radius;
          angular_velocity = ego_speed / wheel_radius
      in py_div angular_momentum angular_velocity)"

text \<open>
  Lines 159 to 166: the torque for a commanded acceleration at a given ego speed. The
  \<^verbatim>\<open>print(acceleration)\<close> of line 163 only writes to the console.
\<close>

definition total_torque :: "real \<Rightarrow> real \<Rightarrow> real result" where
  "total_torque ego_speed acceleration =
     bind (moment_of_inertia ego_speed) (\<lambda>moment_of_inertia.
     let angular_acceleration = acceleration / wheel_radius;
         acceleration_torque = moment_of_inertia * angular_acceleration
     in Inr (acceleration_torque + load_torque))"

text \<open>\<^verbatim>\<open>self.action[0]\<close>: the first component of the stored action.\<close>

fun action_0 :: "real list \<Rightarrow> real result" where
  "action_0 [] = Inl IndexError"
| "action_0 (a # _) = Inr a"

text \<open>
  \<^verbatim>\<open>HighwayEnv._rewards\<close> (lines 119 to 182). The result is the dictionary of the five
  named terms in the order the literal lists them. The parameter \<open>action\<close> is the
  method's argument; the body reads \<^verbatim>\<open>self.action\<close> instead. The lane lookups of lines
  120 to 122 compute values that are never used and are left to the road collaborator.
\<close>

definition HighwayEnv_rewards :: "env \<Rightarrow> real list \<Rightarrow> (string \<times> real) list result" where
  "HighwayEnv_rewards e action =
     bind (config_item (config e) ''reward_speed_range'') (\<lambda>v.
     bind (as_range v) (\<lambda>speed_range.
     bind (lmap (speed (ego e)) speed_range (0, 1)) (\<lambda>scaled_speed.
     bind (safe_distance e) (\<lambda>safe_distance.
     bind (action_0 (stored_action e)) (\<lambda>a0.
     bind (lmap a0 (0, 1) (- 5, 5)) (\<lambda>acceleration.
     bind (total_torque (speed (ego e)) acceleration) (\<lambda>total_torque.
     Inr [(''speed_reward'', clip scaled_speed 0 1),
          (''collision_reward'', if crashed (ego e) then 1 else 0),
          (''safe_distance_reward'', clip safe_distance 0 1),
          (''on_road_reward'', if on_road (ego e) then 1 else 0),
          (''torque_reward'', clip total_torque 0 1)])))))))"

text \<open>
  Line 111: \<^verbatim>\<open>sum(self.config.get(name, 0) * reward for name, reward in rewards.items())\<close>.
  A weight that is missing from the configuration counts as \<open>0\<close>.
\<close>

fun weighted_sum :: "config \<Rightarrow> (string \<times> real) list \<Rightarrow> real result" where
  "weighted_sum cfg [] = Inr 0"
| "weighted_sum cfg ((name, r) # rest) =
     bind (as_num (config_get cfg name (PInt 0))) (\<lambda>w.
     bind (weighted_sum cfg rest) (\<lambda>s. Inr (w * r + s)))"

text \<open>
  \<^verbatim>\<open>HighwayEnv._reward\<close> (lines 104 to 117). The three bounds are looked up while the
  list of line 114 is built, before \<^verbatim>\<open>lmap\<close> computes with them.
\<close>

definition HighwayEnv_reward :: "env \<Rightarrow> real list \<Rightarrow> real result" where
  "HighwayEnv_reward e action =
     bind (HighwayEnv_rewards e action) (\<lambda>rewards.
     bind (weighted_sum (config e) rewards) (\<lambda>reward.
     bind (config_item (config e) ''normalize_reward'') (\<lambda>normalize.
     if truthy normalize then
       bind (config_item (config e) ''collision_reward'') (\<lambda>c.
       bind (config_item (config e) ''high_speed_reward'') (\<lambda>h.
       bind (config_item (config e) ''right_lane_reward'') (\<lambda>r.
       bind (as_num h) (\<lambda>high.
       bind (as_num r) (\<lambda>right.
       bind (as_num c) (\<lambda>lo.
       lmap reward (lo, high + right) (0, 1)))))))
     else Inr reward)))"

section \<open>Episode lifecycle\<close>

text \<open>
  \<^verbatim>\<open>HighwayEnv._is_terminated\<close> (lines 184 to 187):
  \<^verbatim>\<open>crashed or config["offroad_terminal"] and not on_road\<close>. Python evaluates
  \<^verbatim>\<open>or\<close> lazily: the configuration is read only when the ego is not crashed. The
  result is read as a truth value.
\<close>

definition HighwayEnv_is_terminated :: "env \<Rightarrow> bool result" where
  "HighwayEnv_is_terminated e =
     (if crashed (ego e) then Inr True
      else bind (config_item (config e) ''offroad_terminal'') (\<lambda>v.
           Inr (truthy v \<and> \<not> on_road (ego e))))"

text \<open>\<^verbatim>\<open>HighwayEnv._is_truncated\<close> (lines 189 to 191): \<^verbatim>\<open>time >= config["duration"]\<close>.\<close>

definition HighwayEnv_is_truncated :: "env \<Rightarrow> bool result" where
  "HighwayEnv_is_truncated e =
     bind (config_item (config e) ''duration'') (\<lambda>v.
     bind (as_num v) (\<lambda>duration. Inr (time e \<ge> duration)))"

section \<open>The scenario builder\<close>

text \<open>
  A value used as an integer count. A float is not accepted where Python repeats a list
  or builds a \<^verbatim>\<open>range\<close>.
\<close>

fun as_int :: "pyval \<Rightarrow> int result" where
  "as_int (PInt i) = Inr i"
| "as_int (PBool b) = Inr (if b then 1 else 0)"
| "as_int _ = Inl TypeError"

text \<open>
  Modelled from the spec: \<^verbatim>\<open>utils.near_split\<close> lives in \<^verbatim>\<open>highway_env/utils.py\<close>,
  which is not among the sources. The specification has it split a count as evenly as
  possible over a number of bins, the remainder going to the first bins, and asks that an
  invalid split such as zero bins fail instead of producing an empty scenario.
\<close>

definition near_split :: "int \<Rightarrow> int \<Rightarrow> int list result" where
  "near_split x num_bins =
     (if num_bins < 1 then Inl ValueError
      else let quotient = x div num_bins;
               remainder = x mod num_bins
           in Inr (replicate (nat remainder) (quotient + 1) @
                   replicate (nat (num_bins - remainder)) quotient))"

text \<open>
  Vehicle objects are shared between the road's list and the environment's list of
  controlled vehicles, and the fast variant mutates them in place. The scene therefore
  keeps the objects in a store (the address of an object is its index) and both lists
  hold addresses. \<open>np_random\<close> is the state of the shared random generator.
\<close>

record 'g scene =
  store :: "vehicle list"
  road_vehicles :: "nat list"
  controlled_vehicles :: "nat list"
  np_random :: 'g

text \<open>
  The collaborators the builder calls, none of which is among the sources:
  \<^item> \<open>create_random\<close> is \<^verbatim>\<open>Vehicle.create_random(road, speed, lane_id, spacing)\<close>;
  \<^item> \<open>other_create_random\<close> is \<^verbatim>\<open>create_random(road, spacing)\<close> of the class named by
    \<^verbatim>\<open>config["other_vehicles_type"]\<close>;
  \<^item> \<open>randomize_behavior\<close> is the method of that name;
  \<^item> \<open>vehicle_class\<close> is the constructor \<^verbatim>\<open>self.action_type.vehicle_class(road, position,
    heading, speed)\<close>.
  Each reads the vehicles on the road; the random ones also advance the generator.
\<close>

record 'g collaborators =
  create_random :: "vehicle list \<Rightarrow> 'g \<Rightarrow> real \<Rightarrow> pyval \<Rightarrow> pyval \<Rightarrow> vehicle \<times> 'g"
  other_create_random :: "vehicle list \<Rightarrow> 'g \<Rightarrow> real \<Rightarrow> vehicle \<times> 'g"
  randomize_behavior :: "vehicle \<Rightarrow> 'g \<Rightarrow> vehicle \<times> 'g"
  vehicle_class :: "vehicle list \<Rightarrow> real \<times> real \<Rightarrow> real \<Rightarrow> real \<Rightarrow> vehicle"

text \<open>The vehicle objects currently on the road, in the order of the road's list.\<close>

definition road_objects :: "'g scene \<Rightarrow> vehicle list" where
  "road_objects s = map (\<lambda>a. store s ! a) (road_vehicles s)"

text \<open>
  Lines 99 to 102: the inner loop \<^verbatim>\<open>for _ in range(others)\<close>. Each round reads
  \<^verbatim>\<open>config["vehicles_density"]\<close>, creates one traffic vehicle and appends it to the road.
\<close>

primrec create_others :: "'g collaborators \<Rightarrow> config \<Rightarrow> nat \<Rightarrow> 'g scene \<Rightarrow> 'g scene result" where
  "create_others C cfg 0 s = Inr s"
| "create_others C cfg (Suc n) s =
     bind (config_item cfg ''vehicles_density'') (\<lambda>d.
     bind (as_num d) (\<lambda>density.
     bind (py_div 1 density) (\<lambda>spacing.
     let (v, g) = other_create_random C (road_objects s) (np_random s) spacing;
         (v, g) = randomize_behavior C v g;
         a = length (store s)
     in create_others C cfg n
          (s\<lparr>store := store s @ [v],
             road_vehicles := road_vehicles s @ [a],
             np_random := g\<rparr>))))"

text \<open>
  Lines 88 to 102: the outer loop \<^verbatim>\<open>for others in other_per_controlled\<close>. Each round
  draws a random vehicle, builds the controlled vehicle from its position, heading and
  speed, appends that one object to both lists and then creates its group of traffic.
\<close>

fun create_groups :: "'g collaborators \<Rightarrow> config \<Rightarrow> int list \<Rightarrow> 'g scene \<Rightarrow> 'g scene result" where
  "create_groups C cfg [] s = Inr s"
| "create_groups C cfg (others # rest) s =
     bind (config_item cfg ''initial_lane_id'') (\<lambda>lane_id.
     bind (config_item cfg ''ego_spacing'') (\<lambda>spacing.
     let (v, g) = create_random C (road_objects s) (np_random s) 25 lane_id spacing;
         v = vehicle_class C (road_objects s) (position v) (heading v) (speed v);
         a = length (store s)
     in bind (create_others C cfg (nat others)
                (s\<lparr>store := store s @ [v],
                   road_vehicles := road_vehicles s @ [a],
                   controlled_vehicles := controlled_vehicles s @ [a],
                   np_random := g\<rparr>))
             (create_groups C cfg rest)))"

text \<open>\<^verbatim>\<open>HighwayEnv._create_vehicles\<close> (lines 82 to 102).\<close>

definition HighwayEnv_create_vehicles ::
  "'g collaborators \<Rightarrow> config \<Rightarrow> 'g scene \<Rightarrow> 'g scene result" where
  "HighwayEnv_create_vehicles C cfg s =
     bind (config_item cfg ''other_vehicles_type'') (\<lambda>other_vehicles_type.
     bind (config_item cfg ''vehicles_count'') (\<lambda>vehicles_count.
     bind (config_item cfg ''controlled_vehicles'') (\<lambda>num_bins.
     bind (as_int vehicles_count) (\<lambda>x.
     bind (as_int num_bins) (\<lambda>n.
     bind (near_split x n) (\<lambda>other_per_controlled.
     create_groups C cfg other_per_controlled (s\<lparr>controlled_vehicles := []\<rparr>)))))))"

text \<open>
  Lines 216 to 218: the loop of the fast variant over \<^verbatim>\<open>self.road.vehicles\<close>.
  \<^verbatim>\<open>vehicle not in self.controlled_vehicles\<close> compares object identities, that is,
  addresses.
\<close>

fun disable_uncontrolled :: "nat list \<Rightarrow> 'g scene \<Rightarrow> 'g scene" where
  "disable_uncontrolled [] s = s"
| "disable_uncontrolled (a # rest) s =
     disable_uncontrolled rest
       (if a \<notin> set (controlled_vehicles s)
        then s\<lparr>store := (store s)[a := (store s ! a)\<lparr>check_collisions := False\<rparr>]\<rparr>
        else s)"

text \<open>\<^verbatim>\<open>HighwayEnvFast._create_vehicles\<close> (lines 213 to 218).\<close>

definition HighwayEnvFast_create_vehicles ::
  "'g collaborators \<Rightarrow> config \<Rightarrow> 'g scene \<Rightarrow> 'g scene result" where
  "HighwayEnvFast_create_vehicles C cfg s =
     bind (HighwayEnv_create_vehicles C cfg s) (\<lambda>s'.
     Inr (disable_uncontrolled (road_vehicles s') s'))"

text \<open>\<^verbatim>\<open>HighwayEnvFast.default_config\<close> (lines 201 to 211).\<close>

definition HighwayEnvFast_default_config :: "config \<Rightarrow> config" where
  "HighwayEnvFast_default_config base = dict_update (HighwayEnv_default_config base)
     [(''simulation_frequency'', PInt 5),
      (''lanes_count'', PInt 3),
      (''vehicles_count'', PInt 20),
      (''duration'', PInt 30),
      (''ego_spacing'', PFloat (3 / 2))]"

section \<open>Concrete states\<close>

text \<open>
  States on which the theorems below are evaluated. \<open>sample_env\<close> is an ego at speed 25
  under the default configuration, with a vehicle 12 ahead and one 9 behind.
\<close>

definition sample_ego :: vehicle where
  "sample_ego = \<lparr>position = (0, 0), heading = 0, speed = 25, crashed = False,
      on_road = True, check_collisions = True\<rparr>"

definition sample_env :: env where
  "sample_env = \<lparr>config = HighwayEnv_default_config Map.empty, ego = sample_ego,
      front_vehicle = Some 12, rear_vehicle = Some (- 9), beyond = 1000,
      stored_action = [1 / 2], time = 40\<rparr>"

text \<open>The same state with the ego off the road, at standstill, and at speed 10.\<close>

definition offroad_env :: env where
  "offroad_env = sample_env\<lparr>ego := sample_ego\<lparr>on_road := False\<rparr>\<rparr>"

definition stopped_env :: env where
  "stopped_env = sample_env\<lparr>ego := sample_ego\<lparr>speed := 0\<rparr>\<rparr>"

definition slow_env :: env where
  "slow_env = sample_env\<lparr>ego := sample_ego\<lparr>speed := 10\<rparr>\<rparr>"






text \<open>
  Both neighbours at gap zero, under the default ranges and under ranges whose lower
  bound is negative.
\<close>

definition touching_env :: env where
  "touching_env = sample_env\<lparr>front_vehicle := Some 0, rear_vehicle := Some 0\<rparr>"

definition skewed_config :: config where
  "skewed_config = dict_update (HighwayEnv_default_config Map.empty)
     [(''front_distance_range'', PList [PInt (- 30), PInt 30]),
      (''rear_distance_range'', PList [PInt (- 30), PInt 30])]"

definition skewed_env :: env where
  "skewed_env = sample_env\<lparr>config := skewed_config, front_vehicle := Some 0,
      rear_vehicle := Some 0\<rparr>"





text \<open>
  Well-formed scenes: every address on the road's list refers to an object of the store,
  and every controlled vehicle is such an object, is on the road and checks collisions.
\<close>

definition scene_ok :: "'g scene \<Rightarrow> bool" where
  "scene_ok s \<longleftrightarrow>
     (\<forall>a\<in>set (road_vehicles s). a < length (store s)) \<and>
     (\<forall>a\<in>set (controlled_vehicles s).
        a < length (store s) \<and> a \<in> set (road_vehicles s) \<and> check_collisions (store s ! a))"

text \<open>
  Collaborators, a configuration and an empty road on which the builder is run: the
  fast defaults over a base that names the traffic class, with the vehicle count
  lowered to 2. The generator state is a counter.
\<close>

definition sample_collaborators :: "nat collaborators" where
  "sample_collaborators =
     \<lparr>create_random = (\<lambda>road g v lane_id spacing.
        (\<lparr>position = (real g, 0), heading = 0, speed = v, crashed = False,
           on_road = True, check_collisions = True\<rparr>, Suc g)),
      other_create_random = (\<lambda>road g spacing.
        (\<lparr>position = (real g * spacing, 4), heading = 0, speed = 20, crashed = False,
           on_road = True, check_collisions = True\<rparr>, Suc g)),
      randomize_behavior = (\<lambda>v g. (v, Suc g)),
      vehicle_class = (\<lambda>road p h v.
        \<lparr>position = p, heading = h, speed = v, crashed = False,
         on_road = True, check_collisions = True\<rparr>)\<rparr>"

definition builder_config :: config where
  "builder_config = dict_update
     (HighwayEnvFast_default_config
        [''other_vehicles_type'' \<mapsto> PStr ''highway_env.vehicle.behavior.IDMVehicle''])
     [(''vehicles_count'', PInt 2)]"

definition empty_scene :: "nat scene" where
  "empty_scene = \<lparr>store = [], road_vehicles = [], controlled_vehicles = [], np_random = 0\<rparr>"


text \<open>The scene the fast variant builds from them.\<close>

definition fast_scene :: "nat scene" where
  "fast_scene =
     \<lparr>store =
        [\<lparr>position = (0, 0), heading = 0, speed = 25, crashed = False,
            on_road = True, check_collisions = True\<rparr>,
         \<lparr>position = (1, 4), heading = 0, speed = 20, crashed = False,
            on_road = True, check_collisions = False\<rparr>,
         \<lparr>position = (3, 4), heading = 0, speed = 20, crashed = False,
            on_road = True, check_collisions = False\<rparr>],
      road_vehicles = [0, 1, 2], controlled_vehicles = [0], np_random = 5\<rparr>"

section \<open>Basic facts\<close>

lemma bind_Inr [simp]: "bind (Inr x) f = f x"
  by (simp add: bind_def)

lemma bind_Inl [simp]: "bind (Inl e) f = Inl e"
  by (simp add: bind_def)

lemma bind_eq_Inr: "bind m f = Inr y \<longleftrightarrow> (\<exists>x. m = Inr x \<and> f x = Inr y)"
  by (cases m) simp_all

lemma config_item_Some [simp]: "cfg k = Some v \<Longrightarrow> config_item cfg k = Inr v"
  by (simp add: config_item_def)

lemma config_item_None [simp]: "cfg k = None \<Longrightarrow> config_item cfg k = Inl (KeyError k)"
  by (simp add: config_item_def)


lemma default_config_lookup:
  "HighwayEnv_default_config b ''reward_speed_range'' = Some (PList [PInt (- 40), PInt 40])"
  "HighwayEnv_default_config b ''front_distance_range'' = Some (PList [PInt 0, PInt 30])"
  "HighwayEnv_default_config b ''rear_distance_range'' = Some (PList [PInt 0, PInt 30])"
  "HighwayEnv_default_config b ''normalize_reward'' = Some (PBool True)"
  "HighwayEnv_default_config b ''offroad_terminal'' = Some (PBool False)"
  "HighwayEnv_default_config b ''duration'' = Some (PInt 40)"
  "HighwayEnv_default_config b ''speed_reward'' = Some (PInt 25)"
  "HighwayEnv_default_config b ''collision_reward'' = Some (PInt (- 50))"
  "HighwayEnv_default_config b ''safe_distance_reward'' = Some (PInt 5)"
  "HighwayEnv_default_config b ''on_road_reward'' = Some (PInt 20)"
  "HighwayEnv_default_config b ''torque_reward'' = Some (PInt 0)"
  "HighwayEnv_default_config b ''high_speed_reward'' = Some (PFloat (4 / 10))"
  "HighwayEnv_default_config b ''right_lane_reward'' = Some (PFloat (1 / 10))"
  by (simp_all add: HighwayEnv_default_config_def dict_update_def)


lemmas reward_defs = HighwayEnv_rewards_def safe_distance_def front_distance_term_def
  rear_distance_term_def total_torque_def moment_of_inertia_def py_div_def lmap_def clip_def
  load_torque_def vehicle_mass_def rolling_resistance_coefficient_def gravity_def
  wheel_radius_def wheel_mass_def


lemma sample_rewards:
  "HighwayEnv_rewards sample_env action =
     Inr [(''speed_reward'', 13 / 16), (''collision_reward'', 0),
          (''safe_distance_reward'', 7 / 20), (''on_road_reward'', 1), (''torque_reward'', 1)]"
  by (simp add: reward_defs sample_env_def sample_ego_def default_config_lookup)

lemma slow_rewards:
  "HighwayEnv_rewards slow_env action =
     Inr [(''speed_reward'', 5 / 8), (''collision_reward'', 0),
          (''safe_distance_reward'', 7 / 20), (''on_road_reward'', 1), (''torque_reward'', 1)]"
  by (simp add: reward_defs slow_env_def sample_env_def sample_ego_def default_config_lookup)


section \<open>The combined reward\<close>






section \<open>The torque term\<close>

text \<open>
  Claim C2. The claim asks that the torque computation be defined at ego speed zero,
  with a guard that yields a zero torque reward. The code has no such guard: at
  standstill the angular velocity is zero, the quotient that gives the moment of inertia
  raises \<^verbatim>\<open>ZeroDivisionError\<close>, and neither a breakdown nor a reward is returned.
\<close>

theorem standstill_raises:
  "speed (ego stopped_env) = 0
   \<and> moment_of_inertia (speed (ego stopped_env)) = Inl ZeroDivisionError
   \<and> HighwayEnv_rewards stopped_env [] = Inl ZeroDivisionError
   \<and> HighwayEnv_reward stopped_env [] = Inl ZeroDivisionError"
  by (simp add: HighwayEnv_reward_def reward_defs stopped_env_def sample_env_def
      sample_ego_def default_config_lookup)

lemma moment_of_inertia_nonzero:
  "s \<noteq> 0 \<Longrightarrow> moment_of_inertia s = Inr (wheel_mass * wheel_radius\<^sup>2)"
  by (simp add: moment_of_inertia_def py_div_def wheel_radius_def wheel_mass_def
      power2_eq_square)

lemma total_torque_nonzero:
  "s \<noteq> 0 \<Longrightarrow>
   total_torque s acc = Inr (wheel_mass * wheel_radius\<^sup>2 * (acc / wheel_radius) + load_torque)"
  by (simp add: total_torque_def moment_of_inertia_nonzero)

lemma rewards_torque_entry:
  assumes "HighwayEnv_rewards e action = Inr b"
  shows "\<exists>a0 rest acc t. stored_action e = a0 # rest \<and> lmap a0 (0, 1) (- 5, 5) = Inr acc
     \<and> total_torque (speed (ego e)) acc = Inr t
     \<and> map_of b ''torque_reward'' = Some (clip t 0 1)"
  using assms
  by (cases "stored_action e") (auto simp add: HighwayEnv_rewards_def bind_eq_Inr)

text \<open>The same holds in every state at standstill: no breakdown is returned.\<close>

lemma standstill_never_returns:
  assumes "speed (ego e) = 0"
  shows "HighwayEnv_rewards e action \<noteq> Inr b"
proof
  assume "HighwayEnv_rewards e action = Inr b"
  from rewards_torque_entry [OF this] obtain acc t where
    "total_torque (speed (ego e)) acc = Inr t"
    by blast
  with assms show False
    by (simp add: total_torque_def moment_of_inertia_def py_div_def)
qed

text \<open>
  Claim C10. For every ego speed other than zero the moment of inertia is the wheel mass
  times the square of the wheel radius: the speed cancels. The total torque before
  clipping is therefore a function of the commanded acceleration and the constants
  alone, and two states with nonzero speeds and the same stored action get the same
  torque reward.
\<close>

theorem torque_independent_of_speed:
  assumes "s \<noteq> 0"
  shows "moment_of_inertia s = Inr (wheel_mass * wheel_radius\<^sup>2)
     \<and> total_torque s acc =
         Inr (wheel_mass * wheel_radius\<^sup>2 * (acc / wheel_radius) + load_torque)
     \<and> (\<forall>e1 e2 a1 a2 b1 b2. speed (ego e1) = s \<and> speed (ego e2) \<noteq> 0
           \<and> stored_action e1 = stored_action e2
           \<and> HighwayEnv_rewards e1 a1 = Inr b1 \<and> HighwayEnv_rewards e2 a2 = Inr b2
         \<longrightarrow> map_of b1 ''torque_reward'' = map_of b2 ''torque_reward'')"
proof (intro conjI allI impI)
  show "moment_of_inertia s = Inr (wheel_mass * wheel_radius\<^sup>2)"
    using assms by (rule moment_of_inertia_nonzero)
  show "total_torque s acc =
      Inr (wheel_mass * wheel_radius\<^sup>2 * (acc / wheel_radius) + load_torque)"
    using assms by (rule total_torque_nonzero)
next
  fix e1 e2 :: env and a1 a2 b1 b2
  assume h: "speed (ego e1) = s \<and> speed (ego e2) \<noteq> 0
           \<and> stored_action e1 = stored_action e2
           \<and> HighwayEnv_rewards e1 a1 = Inr b1 \<and> HighwayEnv_rewards e2 a2 = Inr b2"
  from h rewards_torque_entry [of e1 a1 b1] rewards_torque_entry [of e2 a2 b2]
  show "map_of b1 ''torque_reward'' = map_of b2 ''torque_reward''"
    using assms by (auto simp add: total_torque_nonzero)
qed

theorem torque_independent_of_speed_witness:
  "(25 :: real) \<noteq> 0
   \<and> moment_of_inertia 25 = Inr (wheel_mass * wheel_radius\<^sup>2)
   \<and> total_torque 25 5 = Inr (wheel_mass * wheel_radius\<^sup>2 * (5 / wheel_radius) + load_torque)
   \<and> speed (ego sample_env) = 25 \<and> speed (ego slow_env) = 10
   \<and> stored_action sample_env = stored_action slow_env
   \<and> (\<exists>b1 b2. HighwayEnv_rewards sample_env [] = Inr b1
         \<and> HighwayEnv_rewards slow_env [] = Inr b2
         \<and> map_of b1 ''torque_reward'' = map_of b2 ''torque_reward'')"
proof -
  have nz: "(25 :: real) \<noteq> 0" by simp
  note t = torque_independent_of_speed [OF nz, of 5]
  have states: "speed (ego sample_env) = 25 \<and> speed (ego slow_env) = 10
      \<and> stored_action sample_env = stored_action slow_env"
    by (simp add: slow_env_def sample_env_def sample_ego_def)
  from t states sample_rewards [of "[]"] slow_rewards [of "[]"]
  have "map_of [(''speed_reward'', 13 / 16 :: real), (''collision_reward'', 0),
          (''safe_distance_reward'', 7 / 20), (''on_road_reward'', 1), (''torque_reward'', 1)]
          ''torque_reward''
      = map_of [(''speed_reward'', 5 / 8 :: real), (''collision_reward'', 0),
          (''safe_distance_reward'', 7 / 20), (''on_road_reward'', 1), (''torque_reward'', 1)]
          ''torque_reward''"
    by simp
  with t states sample_rewards [of "[]"] slow_rewards [of "[]"] nz show ?thesis
    by blast
qed

section \<open>The action argument\<close>

text \<open>
  Claim C9. In a fixed state the breakdown, and with it the scalar reward, does not
  depend on the action passed as argument: the torque term reads the action stored in
  the environment, and nothing else reads an action.
\<close>

theorem rewards_ignore_action_argument:
  "HighwayEnv_rewards e action1 = HighwayEnv_rewards e action2
   \<and> HighwayEnv_reward e action1 = HighwayEnv_reward e action2"
  by (simp add: HighwayEnv_rewards_def HighwayEnv_reward_def)

section \<open>Termination and truncation\<close>

text \<open>
  Claim C5. With \<^verbatim>\<open>offroad_terminal\<close> and \<^verbatim>\<open>duration\<close> configured, the episode is
  terminated exactly when the ego is crashed, or \<^verbatim>\<open>offroad_terminal\<close> is set and the ego
  is not on the road; it is truncated exactly when the elapsed time has reached the
  duration. Both are functions of the state alone. So an ego off the road that is not
  crashed does not terminate the episode when \<^verbatim>\<open>offroad_terminal\<close> is false, a time
  equal to the duration truncates, and an earlier time does not.
\<close>

theorem episode_lifecycle:
  assumes "config e ''offroad_terminal'' = Some (PBool offroad_terminal)"
    and "config e ''duration'' = Some d" and "as_num d = Inr duration"
  shows "HighwayEnv_is_terminated e =
           Inr (crashed (ego e) \<or> (offroad_terminal \<and> \<not> on_road (ego e)))
       \<and> HighwayEnv_is_truncated e = Inr (duration \<le> time e)
       \<and> (\<not> offroad_terminal \<and> \<not> crashed (ego e) \<longrightarrow>
            HighwayEnv_is_terminated e = Inr False)
       \<and> (time e = duration \<longrightarrow> HighwayEnv_is_truncated e = Inr True)
       \<and> (time e < duration \<longrightarrow> HighwayEnv_is_truncated e = Inr False)"
  using assms by (simp add: HighwayEnv_is_terminated_def HighwayEnv_is_truncated_def)

theorem episode_lifecycle_witness:
  "config offroad_env ''offroad_terminal'' = Some (PBool False)
   \<and> config offroad_env ''duration'' = Some (PInt 40)
   \<and> as_num (PInt 40) = Inr 40
   \<and> \<not> on_road (ego offroad_env) \<and> \<not> crashed (ego offroad_env)
   \<and> time offroad_env = 40
   \<and> HighwayEnv_is_terminated offroad_env = Inr False
   \<and> HighwayEnv_is_truncated offroad_env = Inr True"
  using episode_lifecycle [of offroad_env False "PInt 40" 40]
  by (simp add: offroad_env_def sample_env_def sample_ego_def default_config_lookup)

section \<open>The safe distance term\<close>

lemma skewed_config_lookup:
  "skewed_config ''reward_speed_range'' = Some (PList [PInt (- 40), PInt 40])"
  "skewed_config ''front_distance_range'' = Some (PList [PInt (- 30), PInt 30])"
  "skewed_config ''rear_distance_range'' = Some (PList [PInt (- 30), PInt 30])"
  by (simp_all add: skewed_config_def dict_update_def default_config_lookup)

lemma clip_unit: "0 \<le> clip x 0 1 \<and> clip x 0 1 \<le> 1"
  by (simp add: clip_def)

lemma rewards_safe_entry:
  assumes "HighwayEnv_rewards e action = Inr b"
  shows "\<exists>sd. safe_distance e = Inr sd
     \<and> map_of b ''safe_distance_reward'' = Some (clip sd 0 1)"
  using assms by (auto simp add: HighwayEnv_rewards_def bind_eq_Inr)

lemma front_distance_term_Inr:
  assumes "front_distance_term cfg d = Inr f"
  shows "\<exists>fr F. cfg ''front_distance_range'' = Some fr \<and> as_range fr = Inr F
     \<and> lmap (if d > 30 then 30 else d) F (0, 1 / 2) = Inr f"
  using assms
  by (cases "cfg ''front_distance_range''")
     (auto simp add: front_distance_term_def Let_def bind_eq_Inr)

lemma rear_distance_term_Inr:
  assumes "rear_distance_term cfg d = Inr r"
  shows "\<exists>rr R. cfg ''rear_distance_range'' = Some rr \<and> as_range rr = Inr R
     \<and> lmap \<bar>d\<bar> R (0, 1 / 2) = Inr r"
  using assms
  by (cases "cfg ''rear_distance_range''")
     (auto simp add: rear_distance_term_def Let_def bind_eq_Inr)

lemma safe_distance_Inr:
  assumes "safe_distance e = Inr sd"
  shows "\<exists>f r.
       front_distance_term (config e) (lane_distance_to (beyond e) (front_vehicle e)) = Inr f
     \<and> rear_distance_term (config e) (lane_distance_to (beyond e) (rear_vehicle e)) = Inr r
     \<and> sd = f + r"
  using assms by (auto simp add: safe_distance_def Let_def bind_eq_Inr)

lemma lmap_zero_nonpos:
  assumes "lmap 0 F (0, 1 / 2) = Inr f" and "0 \<le> fst F" and "fst F < snd F"
  shows "f \<le> 0"
proof -
  have "f = (0 - fst F) * (1 / 2) / (snd F - fst F)"
    using assms(1) by (simp add: lmap_def split: if_splits)
  moreover have "(0 - fst F) * (1 / 2) / (snd F - fst F) \<le> 0"
    using assms(2,3) by (simp add: divide_nonpos_pos)
  ultimately show ?thesis by simp
qed

text \<open>
  Claim C4, amended. Whenever a breakdown is returned, its safe distance reward lies in
  \<open>[0, 1]\<close>. It is the clipped sum of two halves: the forward gap, with any gap above 30
  replaced by 30, mapped from \<^verbatim>\<open>front_distance_range\<close> onto \<open>[0, 0.5]\<close>, and the absolute
  rear gap mapped from \<^verbatim>\<open>rear_distance_range\<close> onto \<open>[0, 0.5]\<close>. It is zero when both
  gaps are zero, provided each range has a lower bound that is not negative and lies
  below its upper bound, as the default \<open>[0, 30]\<close> does.
\<close>

theorem safe_distance_reward_bounds:
  assumes "HighwayEnv_rewards e action = Inr b"
  shows "\<exists>fr rr F R f r sd.
       config e ''front_distance_range'' = Some fr \<and> as_range fr = Inr F
     \<and> config e ''rear_distance_range'' = Some rr \<and> as_range rr = Inr R
     \<and> lmap (if lane_distance_to (beyond e) (front_vehicle e) > 30 then 30
              else lane_distance_to (beyond e) (front_vehicle e)) F (0, 1 / 2) = Inr f
     \<and> lmap \<bar>lane_distance_to (beyond e) (rear_vehicle e)\<bar> R (0, 1 / 2) = Inr r
     \<and> map_of b ''safe_distance_reward'' = Some sd
     \<and> sd = clip (f + r) 0 1 \<and> 0 \<le> sd \<and> sd \<le> 1
     \<and> (lane_distance_to (beyond e) (front_vehicle e) = 0
          \<and> lane_distance_to (beyond e) (rear_vehicle e) = 0
          \<and> 0 \<le> fst F \<and> fst F < snd F \<and> 0 \<le> fst R \<and> fst R < snd R \<longrightarrow> sd = 0)"
proof -
  from rewards_safe_entry [OF assms] obtain s where
    s: "safe_distance e = Inr s" and entry: "map_of b ''safe_distance_reward'' = Some (clip s 0 1)"
    by blast
  from safe_distance_Inr [OF s] obtain f r where
    halves: "front_distance_term (config e) (lane_distance_to (beyond e) (front_vehicle e)) = Inr f"
      "rear_distance_term (config e) (lane_distance_to (beyond e) (rear_vehicle e)) = Inr r"
      "s = f + r"
    by blast
  from front_distance_term_Inr [OF halves(1)] obtain fr F where
    front: "config e ''front_distance_range'' = Some fr" "as_range fr = Inr F"
      "lmap (if lane_distance_to (beyond e) (front_vehicle e) > 30 then 30
              else lane_distance_to (beyond e) (front_vehicle e)) F (0, 1 / 2) = Inr f"
    by blast
  from rear_distance_term_Inr [OF halves(2)] obtain rr R where
    rear: "config e ''rear_distance_range'' = Some rr" "as_range rr = Inr R"
      "lmap \<bar>lane_distance_to (beyond e) (rear_vehicle e)\<bar> R (0, 1 / 2) = Inr r"
    by blast
  have zero: "lane_distance_to (beyond e) (front_vehicle e) = 0
          \<and> lane_distance_to (beyond e) (rear_vehicle e) = 0
          \<and> 0 \<le> fst F \<and> fst F < snd F \<and> 0 \<le> fst R \<and> fst R < snd R \<longrightarrow> clip (f + r) 0 1 = 0"
  proof
    assume h: "lane_distance_to (beyond e) (front_vehicle e) = 0
          \<and> lane_distance_to (beyond e) (rear_vehicle e) = 0
          \<and> 0 \<le> fst F \<and> fst F < snd F \<and> 0 \<le> fst R \<and> fst R < snd R"
    have "f \<le> 0" using front(3) h by (auto intro: lmap_zero_nonpos)
    moreover have "r \<le> 0" using rear(3) h by (auto intro: lmap_zero_nonpos)
    ultimately show "clip (f + r) 0 1 = 0" by (simp add: clip_def)
  qed
  from front rear halves(3) entry zero clip_unit [of "f + r"] show ?thesis by blast
qed

lemma touching_rewards:
  "HighwayEnv_rewards touching_env action =
     Inr [(''speed_reward'', 13 / 16), (''collision_reward'', 0),
          (''safe_distance_reward'', 0), (''on_road_reward'', 1), (''torque_reward'', 1)]"
  by (simp add: reward_defs touching_env_def sample_env_def sample_ego_def default_config_lookup)

theorem safe_distance_reward_bounds_witness:
  "HighwayEnv_rewards touching_env [] =
     Inr [(''speed_reward'', 13 / 16), (''collision_reward'', 0),
          (''safe_distance_reward'', 0), (''on_road_reward'', 1), (''torque_reward'', 1)]
   \<and> lane_distance_to (beyond touching_env) (front_vehicle touching_env) = 0
   \<and> lane_distance_to (beyond touching_env) (rear_vehicle touching_env) = 0
   \<and> (\<exists>sd. map_of [(''speed_reward'', 13 / 16), (''collision_reward'', 0),
          (''safe_distance_reward'', 0), (''on_road_reward'', 1), (''torque_reward'', 1 :: real)]
           ''safe_distance_reward'' = Some sd \<and> 0 \<le> sd \<and> sd \<le> 1 \<and> sd = 0)"
proof -
  have gaps: "lane_distance_to (beyond touching_env) (front_vehicle touching_env) = 0
      \<and> lane_distance_to (beyond touching_env) (rear_vehicle touching_env) = 0"
    by (simp add: touching_env_def sample_env_def)
  from safe_distance_reward_bounds [OF touching_rewards [of "[]"]]
  have "\<exists>sd. map_of [(''speed_reward'', 13 / 16), (''collision_reward'', 0),
          (''safe_distance_reward'', 0), (''on_road_reward'', 1), (''torque_reward'', 1 :: real)]
           ''safe_distance_reward'' = Some sd \<and> 0 \<le> sd \<and> sd \<le> 1"
    by blast
  then have "\<exists>sd. map_of [(''speed_reward'', 13 / 16), (''collision_reward'', 0),
          (''safe_distance_reward'', 0), (''on_road_reward'', 1), (''torque_reward'', 1 :: real)]
           ''safe_distance_reward'' = Some sd \<and> 0 \<le> sd \<and> sd \<le> 1 \<and> sd = 0"
    by simp
  with gaps touching_rewards [of "[]"] show ?thesis by blast
qed

text \<open>
  Claim C4 as stated fails where a range has a negative lower bound: with both ranges
  \<open>[-30, 30]\<close> and both gaps zero the safe distance reward is \<open>0.5\<close>.
\<close>

theorem zero_gaps_nonzero_reward:
  "front_vehicle skewed_env = Some 0 \<and> rear_vehicle skewed_env = Some 0
   \<and> HighwayEnv_rewards skewed_env [] =
     Inr [(''speed_reward'', 13 / 16), (''collision_reward'', 0),
          (''safe_distance_reward'', 1 / 2), (''on_road_reward'', 1), (''torque_reward'', 1)]"
  by (simp add: reward_defs skewed_env_def sample_env_def sample_ego_def skewed_config_lookup)

section \<open>Returned breakdowns\<close>

text \<open>
  Under ranges of nonzero width each half of the safe distance is a linear image of the
  distance that \<open>lane_distance_to\<close> delivers, capped at 30 in front and taken in absolute
  value behind. Lines 129 to 137 have no branch for an absent neighbour: the distance the
  collaborator reports for it takes the same path as any gap.
\<close>

lemma lmap_half:
  "lo \<noteq> hi \<Longrightarrow> lmap v (lo, hi) (0, 1 / 2) = Inr ((v - lo) / (2 * (hi - lo)))"
  by (simp add: lmap_def)

lemma front_distance_term_value:
  assumes "cfg ''front_distance_range'' = Some fr" and "as_range fr = Inr (fl, fh)"
    and "fl \<noteq> fh"
  shows "front_distance_term cfg d = Inr ((min d 30 - fl) / (2 * (fh - fl)))"
  using assms by (simp add: front_distance_term_def Let_def lmap_half min_def)

lemma rear_distance_term_value:
  assumes "cfg ''rear_distance_range'' = Some rr" and "as_range rr = Inr (rl, rh)"
    and "rl \<noteq> rh"
  shows "rear_distance_term cfg d = Inr ((\<bar>d\<bar> - rl) / (2 * (rh - rl)))"
  using assms by (simp add: rear_distance_term_def Let_def lmap_half)

text \<open>
  At every ego speed other than zero, with a stored action that is not empty and a
  speed range of nonzero width, a breakdown is returned as soon as both halves are.
\<close>

lemma rewards_total:
  assumes "speed (ego e) \<noteq> 0"
    and "stored_action e = a0 # rest"
    and "config e ''reward_speed_range'' = Some sr" "as_range sr = Inr (sl, sh)" "sl \<noteq> sh"
    and "front_distance_term (config e) (lane_distance_to (beyond e) (front_vehicle e)) = Inr f"
    and "rear_distance_term (config e) (lane_distance_to (beyond e) (rear_vehicle e)) = Inr r"
  shows "\<exists>sp tq. HighwayEnv_rewards e action =
     Inr [(''speed_reward'', sp),
          (''collision_reward'', if crashed (ego e) then 1 else 0),
          (''safe_distance_reward'', clip (f + r) 0 1),
          (''on_road_reward'', if on_road (ego e) then 1 else 0),
          (''torque_reward'', tq)]"
  using assms
  by (simp add: HighwayEnv_rewards_def safe_distance_def Let_def lmap_def total_torque_nonzero)

section \<open>Missing configuration keys\<close>













section \<open>The split of the vehicle budget\<close>

lemma near_split_value:
  assumes "1 \<le> bins"
  shows "near_split n bins =
     Inr (replicate (nat (n mod bins)) (n div bins + 1) @
          replicate (nat (bins - n mod bins)) (n div bins))"
  using assms by (simp add: near_split_def Let_def)

text \<open>
  Claim C6. For every count and every number of bins of at least one, the split is a
  function of the two, has one entry per bin, sums to the count, has entries that differ
  by at most one, and gives the remainder to the first bins: entry \<open>i\<close> is the quotient
  plus one when \<open>i\<close> is below the remainder and the quotient otherwise. In particular
  50 over 1 bin is \<open>[50]\<close>, 7 over 3 bins is \<open>[3, 2, 2]\<close> and 0 over 2 bins is \<open>[0, 0]\<close>.
\<close>

theorem near_split_even:
  assumes "1 \<le> bins"
  shows "\<exists>xs. near_split n bins = Inr xs
     \<and> length xs = nat bins
     \<and> sum_list xs = n
     \<and> (\<forall>a\<in>set xs. \<forall>b\<in>set xs. \<bar>a - b\<bar> \<le> 1)
     \<and> (\<forall>i<length xs. xs ! i = n div bins + (if int i < n mod bins then 1 else 0))
     \<and> near_split 50 1 = Inr [50]
     \<and> near_split 7 3 = Inr [3, 2, 2]
     \<and> near_split 0 2 = Inr [0, 0]"
proof -
  define q where "q = n div bins"
  define r where "r = n mod bins"
  define xs where "xs = replicate (nat r) (q + 1) @ replicate (nat (bins - r)) q"
  have r: "0 \<le> r" "r < bins" using assms by (simp_all add: r_def)
  have split: "near_split n bins = Inr xs"
    using near_split_value [OF assms, of n] by (simp add: xs_def q_def r_def)
  have len: "length xs = nat bins" using r by (simp add: xs_def)
  have "sum_list xs = r * (q + 1) + (bins - r) * q"
    using r by (simp add: xs_def sum_list_replicate)
  also have "\<dots> = bins * q + r" by (simp add: algebra_simps)
  also have "\<dots> = n" by (simp add: q_def r_def)
  finally have total: "sum_list xs = n" .
  have elems: "a = q \<or> a = q + 1" if "a \<in> set xs" for a
    using that by (auto simp add: xs_def)
  have near: "\<forall>a\<in>set xs. \<forall>b\<in>set xs. \<bar>a - b\<bar> \<le> 1"
  proof (intro ballI)
    fix a b assume "a \<in> set xs" and "b \<in> set xs"
    then have "a = q \<or> a = q + 1" and "b = q \<or> b = q + 1" by (simp_all add: elems)
    then show "\<bar>a - b\<bar> \<le> 1" by auto
  qed
  have nth: "\<forall>i<length xs. xs ! i = n div bins + (if int i < n mod bins then 1 else 0)"
  proof (intro allI impI)
    fix i assume "i < length xs"
    then have i: "i < nat bins" using len by simp
    show "xs ! i = n div bins + (if int i < n mod bins then 1 else 0)"
    proof (cases "int i < r")
      case True
      then have "i < nat r" by simp
      then have "xs ! i = q + 1" by (simp add: xs_def nth_append)
      with True show ?thesis by (simp add: q_def r_def)
    next
      case False
      then have ge: "nat r \<le> i" by simp
      have "i - nat r < nat (bins - r)" using i ge r by simp
      with ge have "xs ! i = q" by (simp add: xs_def nth_append)
      with False show ?thesis by (simp add: q_def r_def)
    qed
  qed
  have e1: "near_split 50 1 = Inr [50]" by (simp add: near_split_def)
  have e2: "near_split 7 3 = Inr [3, 2, 2]"
    by (simp add: near_split_def Let_def numeral_3_eq_3 numeral_2_eq_2)
  have e3: "near_split 0 2 = Inr [0, 0]"
    by (simp add: near_split_def numeral_2_eq_2)
  show ?thesis
    by (rule exI [of _ xs]) (intro conjI split len total near nth e1 e2 e3)
qed

theorem near_split_even_witness:
  "(1 :: int) \<le> 3
   \<and> (\<exists>xs. near_split 7 3 = Inr xs \<and> length xs = 3 \<and> sum_list xs = 7
        \<and> xs ! 0 = 3 \<and> xs ! 1 = 2 \<and> xs ! 2 = 2)"
proof -
  have b: "(1 :: int) \<le> 3" by simp
  from near_split_even [OF b, of 7] obtain xs where
    xs: "near_split 7 3 = Inr xs" "length xs = nat 3" "sum_list xs = 7"
      "\<forall>i<length xs. xs ! i = 7 div 3 + (if int i < 7 mod 3 then 1 else 0)"
    by blast
  from xs(2) have len: "length xs = 3" by simp
  from xs(4) len have "xs ! 0 = 3" "xs ! 1 = 2" "xs ! 2 = 2" by simp_all
  with b xs(1,3) len show ?thesis by blast
qed

section \<open>The fast variant\<close>

text \<open>The loop of the fast variant changes nothing but the store.\<close>

lemma disable_frame:
  "road_vehicles (disable_uncontrolled as s) = road_vehicles s
   \<and> controlled_vehicles (disable_uncontrolled as s) = controlled_vehicles s
   \<and> np_random (disable_uncontrolled as s) = np_random s
   \<and> length (store (disable_uncontrolled as s)) = length (store s)"
  by (induction as arbitrary: s) simp_all

text \<open>
  In the store it switches collision checking off for exactly the objects that are on
  the road's list and not on the list of controlled vehicles.
\<close>

lemma disable_store:
  "a < length (store s) \<Longrightarrow>
   store (disable_uncontrolled as s) ! a =
     (if a \<in> set as \<and> a \<notin> set (controlled_vehicles s)
      then (store s ! a)\<lparr>check_collisions := False\<rparr> else store s ! a)"
proof (induction as arbitrary: s)
  case Nil
  then show ?case by simp
next
  case (Cons x as)
  show ?case
  proof (cases "x = a")
    case True
    with Cons show ?thesis by simp
  next
    case False
    with Cons show ?thesis by simp
  qed
qed

text \<open>The base builder keeps scenes well formed.\<close>

lemma scene_ok_append_road:
  assumes "scene_ok s"
  shows "scene_ok (s\<lparr>store := store s @ [v],
      road_vehicles := road_vehicles s @ [length (store s)], np_random := g\<rparr>)"
  using assms by (auto simp add: scene_ok_def nth_append less_Suc_eq)

lemma scene_ok_append_controlled:
  assumes "scene_ok s" and "check_collisions v"
  shows "scene_ok (s\<lparr>store := store s @ [v],
      road_vehicles := road_vehicles s @ [length (store s)],
      controlled_vehicles := controlled_vehicles s @ [length (store s)], np_random := g\<rparr>)"
  using assms by (auto simp add: scene_ok_def nth_append less_Suc_eq)

lemma create_others_ok:
  "scene_ok s \<Longrightarrow> create_others C cfg n s = Inr s' \<Longrightarrow> scene_ok s'"
proof (induction n arbitrary: s)
  case 0
  then show ?case by simp
next
  case (Suc n)
  from Suc.prems(2) have "\<exists>v g. create_others C cfg n
        (s\<lparr>store := store s @ [v], road_vehicles := road_vehicles s @ [length (store s)],
           np_random := g\<rparr>) = Inr s'"
    by (auto simp add: bind_eq_Inr Let_def case_prod_beta)
  then obtain v g where
    rest: "create_others C cfg n
        (s\<lparr>store := store s @ [v], road_vehicles := road_vehicles s @ [length (store s)],
           np_random := g\<rparr>) = Inr s'"
    by blast
  from Suc.IH [OF scene_ok_append_road [OF Suc.prems(1)] rest] show ?case .
qed

lemma create_groups_Cons_Inr:
  assumes "create_groups C cfg (others # rest) s = Inr s'"
  shows "\<exists>lane_id spacing s1.
      create_others C cfg (nat others)
        (s\<lparr>store := store s @
             [vehicle_class C (road_objects s)
                (position (fst (create_random C (road_objects s) (np_random s) 25
                   lane_id spacing)))
                (heading (fst (create_random C (road_objects s) (np_random s) 25
                   lane_id spacing)))
                (speed (fst (create_random C (road_objects s) (np_random s) 25
                   lane_id spacing)))],
           road_vehicles := road_vehicles s @ [length (store s)],
           controlled_vehicles := controlled_vehicles s @ [length (store s)],
           np_random := snd (create_random C (road_objects s) (np_random s) 25
                   lane_id spacing)\<rparr>) = Inr s1
      \<and> create_groups C cfg rest s1 = Inr s'"
  using assms by (auto simp add: bind_eq_Inr Let_def case_prod_beta)

lemma create_groups_ok:
  assumes ctor: "\<forall>road p h v. check_collisions (vehicle_class C road p h v)"
  shows "scene_ok s \<Longrightarrow> create_groups C cfg groups s = Inr s' \<Longrightarrow> scene_ok s'"
proof (induction groups arbitrary: s)
  case Nil
  then show ?case by simp
next
  case (Cons others rest)
  have cc: "check_collisions (vehicle_class C road p h v)" for road p h v
    using ctor by blast
  from create_groups_Cons_Inr [OF Cons.prems(2)] obtain lane_id spacing s1 where
    inner: "create_others C cfg (nat others)
        (s\<lparr>store := store s @
             [vehicle_class C (road_objects s)
                (position (fst (create_random C (road_objects s) (np_random s) 25
                   lane_id spacing)))
                (heading (fst (create_random C (road_objects s) (np_random s) 25
                   lane_id spacing)))
                (speed (fst (create_random C (road_objects s) (np_random s) 25
                   lane_id spacing)))],
           road_vehicles := road_vehicles s @ [length (store s)],
           controlled_vehicles := controlled_vehicles s @ [length (store s)],
           np_random := snd (create_random C (road_objects s) (np_random s) 25
                   lane_id spacing)\<rparr>) = Inr s1"
    and outer: "create_groups C cfg rest s1 = Inr s'"
    by blast
  from create_others_ok [OF scene_ok_append_controlled [OF Cons.prems(1) cc] inner]
  have "scene_ok s1" .
  from Cons.IH [OF this outer] show ?case .
qed

lemma create_vehicles_ok:
  assumes "\<forall>a\<in>set (road_vehicles s). a < length (store s)"
    and "\<forall>road p h v. check_collisions (vehicle_class C road p h v)"
    and "HighwayEnv_create_vehicles C cfg s = Inr s0"
  shows "scene_ok s0"
proof -
  from assms(3) obtain groups where
    g: "create_groups C cfg groups (s\<lparr>controlled_vehicles := []\<rparr>) = Inr s0"
    by (auto simp add: HighwayEnv_create_vehicles_def bind_eq_Inr)
  have "scene_ok (s\<lparr>controlled_vehicles := []\<rparr>)"
    using assms(1) by (simp add: scene_ok_def)
  from create_groups_ok [OF assms(2) this g] show ?thesis .
qed

text \<open>
  Claim C7. Start from a scene whose road list refers to objects of the store, with a
  controlled vehicle class whose constructor leaves collision checking enabled. When the
  fast variant's vehicle creation completes, the base builder completes on the same
  input, and the two results have the same road list, the same list of controlled
  vehicles, the same generator state and stores of the same length. Every vehicle on the
  road's list that is not a controlled vehicle has collision checking disabled, every
  controlled vehicle has it enabled, and every object of the store is the base builder's
  object, with collision checking switched off if it is on the road and not controlled.
\<close>

theorem fast_variant_disables_uncontrolled:
  assumes wf: "\<forall>a\<in>set (road_vehicles s). a < length (store s)"
    and ctor: "\<forall>road p h v. check_collisions (vehicle_class C road p h v)"
    and fast: "HighwayEnvFast_create_vehicles C cfg s = Inr s'"
  shows "\<exists>s0. HighwayEnv_create_vehicles C cfg s = Inr s0
     \<and> road_vehicles s' = road_vehicles s0
     \<and> controlled_vehicles s' = controlled_vehicles s0
     \<and> np_random s' = np_random s0
     \<and> length (store s') = length (store s0)
     \<and> (\<forall>a\<in>set (road_vehicles s'). a \<notin> set (controlled_vehicles s') \<longrightarrow>
           \<not> check_collisions (store s' ! a))
     \<and> (\<forall>a\<in>set (controlled_vehicles s'). check_collisions (store s' ! a))
     \<and> (\<forall>a<length (store s').
           store s' ! a =
             (if a \<in> set (road_vehicles s0) \<and> a \<notin> set (controlled_vehicles s0)
              then (store s0 ! a)\<lparr>check_collisions := False\<rparr> else store s0 ! a))"
proof -
  from fast obtain s0 where
    base: "HighwayEnv_create_vehicles C cfg s = Inr s0"
    and s': "s' = disable_uncontrolled (road_vehicles s0) s0"
    by (auto simp add: HighwayEnvFast_create_vehicles_def bind_eq_Inr)
  have ok: "scene_ok s0" using wf ctor base by (rule create_vehicles_ok)
  note frame = disable_frame [of "road_vehicles s0" s0, folded s']
  have stores: "store s' ! a =
      (if a \<in> set (road_vehicles s0) \<and> a \<notin> set (controlled_vehicles s0)
       then (store s0 ! a)\<lparr>check_collisions := False\<rparr> else store s0 ! a)"
    if "a < length (store s0)" for a
    unfolding s' using that by (rule disable_store)
  have off: "\<forall>a\<in>set (road_vehicles s'). a \<notin> set (controlled_vehicles s') \<longrightarrow>
           \<not> check_collisions (store s' ! a)"
    using ok frame stores by (auto simp add: scene_ok_def)
  have on: "\<forall>a\<in>set (controlled_vehicles s'). check_collisions (store s' ! a)"
    using ok frame stores by (auto simp add: scene_ok_def)
  have rest: "\<forall>a<length (store s').
           store s' ! a =
             (if a \<in> set (road_vehicles s0) \<and> a \<notin> set (controlled_vehicles s0)
              then (store s0 ! a)\<lparr>check_collisions := False\<rparr> else store s0 ! a)"
    using frame stores by simp
  show ?thesis
    by (rule exI [of _ s0]) (intro conjI base off on rest; simp add: frame)
qed

lemma builder_config_lookup:
  "builder_config ''other_vehicles_type'' = Some (PStr ''highway_env.vehicle.behavior.IDMVehicle'')"
  "builder_config ''vehicles_count'' = Some (PInt 2)"
  "builder_config ''controlled_vehicles'' = Some (PInt 1)"
  "builder_config ''initial_lane_id'' = Some PNone"
  "builder_config ''ego_spacing'' = Some (PFloat (3 / 2))"
  "builder_config ''vehicles_density'' = Some (PInt 1)"
  by code_simp+

lemma base_scene_built:
  "HighwayEnv_create_vehicles sample_collaborators builder_config empty_scene =
     Inr (fast_scene\<lparr>store := map (\<lambda>v. v\<lparr>check_collisions := True\<rparr>) (store fast_scene)\<rparr>)"
  by (simp add: HighwayEnv_create_vehicles_def
      builder_config_lookup near_split_def empty_scene_def sample_collaborators_def
      road_objects_def py_div_def numeral_2_eq_2 fast_scene_def)

lemma fast_scene_built:
  "HighwayEnvFast_create_vehicles sample_collaborators builder_config empty_scene =
     Inr fast_scene"
  by (simp add: HighwayEnvFast_create_vehicles_def base_scene_built)
     (simp add: fast_scene_def)

theorem fast_variant_disables_uncontrolled_witness:
  "road_vehicles empty_scene = []
   \<and> (\<forall>road p h v. check_collisions (vehicle_class sample_collaborators road p h v))
   \<and> HighwayEnvFast_create_vehicles sample_collaborators builder_config empty_scene =
       Inr fast_scene
   \<and> road_vehicles fast_scene = [0, 1, 2]
   \<and> controlled_vehicles fast_scene = [0]
   \<and> check_collisions (store fast_scene ! 0)
   \<and> \<not> check_collisions (store fast_scene ! 1)
   \<and> \<not> check_collisions (store fast_scene ! 2)"
proof -
  have wf: "\<forall>a\<in>set (road_vehicles empty_scene). a < length (store empty_scene)"
    by (simp add: empty_scene_def)
  have ctor: "\<forall>road p h v. check_collisions (vehicle_class sample_collaborators road p h v)"
    by (simp add: sample_collaborators_def)
  note t = fast_variant_disables_uncontrolled [OF wf ctor fast_scene_built]
  have lists: "road_vehicles fast_scene = [0, 1, 2]" "controlled_vehicles fast_scene = [0]"
    by (simp_all add: fast_scene_def)
  from t lists have "check_collisions (store fast_scene ! 0)"
    "\<not> check_collisions (store fast_scene ! 1)" "\<not> check_collisions (store fast_scene ! 2)"
    by auto
  with wf ctor fast_scene_built lists show ?thesis
    by (simp add: empty_scene_def)
qed

end
